theory Spec2Isabelle
  imports Complex_Main "HOL-Library.Word"
begin

section \<open>JavaScript strings and values\<close>

text \<open>
  Strings are lists of characters. The character type of HOL has 256 values, so the
  model covers the texts whose code units are below 256; the whitespace that
  \<^verbatim>\<open>String.prototype.trim\<close> removes is, in that range, TAB, LF, VT, FF, CR, SPACE and
  NBSP.
\<close>

definition nl :: char where
  "nl = CHR 0x0A"

definition cr :: char where
  "cr = CHR 0x0D"

definition isWhite :: "char \<Rightarrow> bool" where
  "isWhite c = (c \<in> set [CHR 0x09, CHR 0x0A, CHR 0x0B, CHR 0x0C, CHR 0x0D, CHR 0x20, CHR 0xA0])"

definition trim :: "string \<Rightarrow> string" where
  "trim s = rev (dropWhile isWhite (rev (dropWhile isWhite s)))"

definition startsWith :: "string \<Rightarrow> string \<Rightarrow> bool" where
  "startsWith s p = (take (length p) s = p)"

definition endsWith :: "string \<Rightarrow> string \<Rightarrow> bool" where
  "endsWith s p = (length p \<le> length s \<and> drop (length s - length p) s = p)"

text \<open>\<^verbatim>\<open>s.indexOf(c)\<close>: the first position of \<open>c\<close>, \<open>None\<close> for the \<^verbatim>\<open>-1\<close> of JavaScript.\<close>

fun indexOf :: "string \<Rightarrow> char \<Rightarrow> nat option" where
  "indexOf [] c = None"
| "indexOf (x # xs) c = (if x = c then Some 0 else map_option Suc (indexOf xs c))"

text \<open>\<^verbatim>\<open>s.split("\n")\<close>: never empty, the last element is the text after the last newline.\<close>

fun split_nl :: "string \<Rightarrow> string list" where
  "split_nl [] = [[]]"
| "split_nl (x # xs) =
     (if x = nl then [] # split_nl xs
      else (case split_nl xs of [] \<Rightarrow> [[x]] | l # ls \<Rightarrow> (x # l) # ls))"

text \<open>
  The values \<^verbatim>\<open>JSON.parse\<close> returns. \<^verbatim>\<open>undefined\<close> is not one of them: a value that
  may be undefined is a \<open>json option\<close>. Numbers are the finite ones; an object is the list
  of its properties, each name once.
\<close>

datatype json =
    JNull
  | JBool bool
  | JNum real
  | JStr string
  | JArr "json list"
  | JObj "(string \<times> json) list"

text \<open>The truthiness test of \<^verbatim>\<open>if (v)\<close>, \<^verbatim>\<open>!v\<close> and \<^verbatim>\<open>a || b\<close>.\<close>

fun truthy :: "json option \<Rightarrow> bool" where
  "truthy None = False"
| "truthy (Some JNull) = False"
| "truthy (Some (JBool b)) = b"
| "truthy (Some (JNum n)) = (n \<noteq> 0)"
| "truthy (Some (JStr s)) = (s \<noteq> [])"
| "truthy (Some (JArr xs)) = True"
| "truthy (Some (JObj kvs)) = True"

text \<open>
  \<^verbatim>\<open>v.name\<close> for a value that is neither null nor undefined and a name that no
  prototype defines (\<^verbatim>\<open>choices\<close>, \<^verbatim>\<open>delta\<close>, \<^verbatim>\<open>content\<close>, \<^verbatim>\<open>error\<close>): only an object can
  have it.
\<close>

fun member :: "json \<Rightarrow> string \<Rightarrow> json option" where
  "member (JObj kvs) k = map_of kvs k"
| "member v k = None"

text \<open>\<^verbatim>\<open>v[0]\<close> for a value that is neither null nor undefined.\<close>

fun index0 :: "json \<Rightarrow> json option" where
  "index0 (JArr xs) = (case xs of [] \<Rightarrow> None | x # rest \<Rightarrow> Some x)"
| "index0 (JStr s) = (case s of [] \<Rightarrow> None | c # rest \<Rightarrow> Some (JStr [c]))"
| "index0 (JObj kvs) = map_of kvs ''0''"
| "index0 v = None"

text \<open>
  \<^verbatim>\<open>parsed.choices?.[0]?.delta?.content\<close> for a \<open>parsed\<close> that is not null: each
  \<^verbatim>\<open>?.\<close> ends the whole chain with undefined when what stands before it is null or
  undefined.
\<close>

definition deltaContent :: "json \<Rightarrow> json option" where
  "deltaContent parsed =
     (case member parsed ''choices'' of
        None \<Rightarrow> None
      | Some JNull \<Rightarrow> None
      | Some choices \<Rightarrow>
          (case index0 choices of
             None \<Rightarrow> None
           | Some JNull \<Rightarrow> None
           | Some choice \<Rightarrow>
               (case member choice ''delta'' of
                  None \<Rightarrow> None
                | Some JNull \<Rightarrow> None
                | Some delta \<Rightarrow> member delta ''content'')))"

section \<open>The streaming parser of streamChat\<close>

text \<open>
  What the body of the \<^verbatim>\<open>try\<close> block does with the payload of a data line:
  \<^verbatim>\<open>JSON.parse\<close> is the platform's, a parameter \<open>parse\<close> that returns \<open>None\<close> where it
  throws. Reading \<^verbatim>\<open>.choices\<close> of null throws as well. The callbacks are taken not to
  throw.
\<close>

datatype lineOutcome = Skipped | Emitted json | DoneSeen | ParseFailed

definition tryDelta :: "(string \<Rightarrow> json option) \<Rightarrow> string \<Rightarrow> lineOutcome" where
  "tryDelta parse jsonStr =
     (case parse jsonStr of
        None \<Rightarrow> ParseFailed
      | Some JNull \<Rightarrow> ParseFailed
      | Some parsed \<Rightarrow>
          (let c = deltaContent parsed in
           if truthy c then Emitted (the c) else Skipped))"

text \<open>The body of the inner \<^verbatim>\<open>while\<close> loop, for a line whose trailing CR is removed.\<close>

definition mainLine :: "(string \<Rightarrow> json option) \<Rightarrow> string \<Rightarrow> lineOutcome" where
  "mainLine parse line =
     (if startsWith line '':'' \<or> trim line = [] then Skipped
      else if \<not> startsWith line ''data: '' then Skipped
      else (let jsonStr = trim (drop 6 line) in
            if jsonStr = ''[DONE]'' then DoneSeen
            else tryDelta parse jsonStr))"

definition stripCR :: "string \<Rightarrow> string" where
  "stripCR line = (if endsWith line [cr] then take (length line - 1) line else line)"

text \<open>
  The inner loop: it consumes the complete lines of the buffer, until the buffer has no
  newline, the sentinel is read, or a payload fails to parse (the line is then put back).
  The result is the list of the arguments of \<^verbatim>\<open>onDelta\<close>, the buffer and \<^verbatim>\<open>streamDone\<close>.
\<close>

function innerLoop :: "(string \<Rightarrow> json option) \<Rightarrow> string \<Rightarrow> json list \<times> string \<times> bool" where
  "innerLoop parse textBuffer =
     (case indexOf textBuffer nl of
        None \<Rightarrow> ([], textBuffer, False)
      | Some newlineIndex \<Rightarrow>
          (let line = stripCR (take newlineIndex textBuffer);
               rest = drop (Suc newlineIndex) textBuffer
           in case mainLine parse line of
                Skipped \<Rightarrow> innerLoop parse rest
              | Emitted v \<Rightarrow>
                  (case innerLoop parse rest of (ds, b, d) \<Rightarrow> (v # ds, b, d))
              | DoneSeen \<Rightarrow> ([], rest, True)
              | ParseFailed \<Rightarrow> ([], line @ [nl] @ rest, False)))"
  by pat_completeness auto
termination
proof -
  have less: "indexOf s c = Some i \<Longrightarrow> i < length s" for s c i
    by (induction s arbitrary: i) (auto split: if_splits)
  show ?thesis
    by (relation "measure (\<lambda>(p, b). length b)") (auto dest: less)
qed

declare innerLoop.simps [simp del]

text \<open>
  The outer loop over the chunks that \<^verbatim>\<open>reader.read()\<close> delivers, each as the text
  that the streaming \<^verbatim>\<open>TextDecoder\<close> makes of it; the list is the whole stream, and its
  end is the \<^verbatim>\<open>done\<close> of the reader. The last component is \<^verbatim>\<open>streamDone\<close>: whether the
  loop ended at the sentinel.
\<close>

fun outerLoop :: "(string \<Rightarrow> json option) \<Rightarrow> string \<Rightarrow> string list \<Rightarrow> json list \<times> string \<times> bool" where
  "outerLoop parse textBuffer [] = ([], textBuffer, False)"
| "outerLoop parse textBuffer (chunk # chunks) =
     (case innerLoop parse (textBuffer @ chunk) of
        (ds, b, streamDone) \<Rightarrow>
          if streamDone then (ds, b, True)
          else (case outerLoop parse b chunks of (ds', b', d') \<Rightarrow> (ds @ ds', b', d')))"

text \<open>The body of the loop of the final flush.\<close>

definition flushLine :: "(string \<Rightarrow> json option) \<Rightarrow> string \<Rightarrow> json list" where
  "flushLine parse raw =
     (if raw = [] \<or> startsWith raw '':'' then []
      else if \<not> startsWith raw ''data: '' then []
      else (let jsonStr = trim (drop 6 raw) in
            if jsonStr = ''[DONE]'' then []
            else (case tryDelta parse jsonStr of Emitted v \<Rightarrow> [v] | other \<Rightarrow> [])))"

definition finalFlush :: "(string \<Rightarrow> json option) \<Rightarrow> string \<Rightarrow> json list" where
  "finalFlush parse textBuffer =
     (if trim textBuffer \<noteq> [] then concat (map (flushLine parse) (split_nl textBuffer)) else [])"


subsection \<open>The whole call\<close>

text \<open>
  What a rejected promise or a \<^verbatim>\<open>throw\<close> carries, as far as the \<^verbatim>\<open>catch\<close> blocks look at it:
  an \<^verbatim>\<open>Error\<close> with its message, or another value.
\<close>

datatype thrown = ErrorObject string | OtherValue

text \<open>
  How an awaited promise ends: it is fulfilled with a value, it is rejected, or it never
  settles, and then the call that awaits it goes no further.
\<close>

datatype 'a settled = Resolved 'a | Rejected thrown | Pending

text \<open>
  The response of \<^verbatim>\<open>fetch\<close>: \<open>resp_json\<close> is how \<^verbatim>\<open>resp.json()\<close> ends; \<open>resp_body\<close> is \<open>None\<close>
  for a null body, and otherwise the chunks the reader delivers and how the read after
  the last chunk ends: fulfilled with \<^verbatim>\<open>done\<close>, rejected, or never settled.
\<close>

record response =
  resp_ok :: bool
  resp_status :: nat
  resp_json :: "json settled"
  resp_body :: "(string list \<times> unit settled) option"

type_synonym fetched = "response settled"

text \<open>The calls of the three callbacks, in the order in which they are made.\<close>

datatype event = OnDelta json | OnDone | OnError json

text \<open>\<^verbatim>\<open>n.toString()\<close> and \<^verbatim>\<open>`${n}`\<close> for a natural number.\<close>

definition digitChar :: "nat \<Rightarrow> char" where
  "digitChar n = ''0123456789'' ! n"

fun showNat :: "nat \<Rightarrow> string" where
  "showNat n =
     (if n < 10 then [digitChar n] else showNat (n div 10) @ [digitChar (n mod 10)])"

declare showNat.simps [simp del]

definition catchMessage :: "thrown \<Rightarrow> json" where
  "catchMessage e =
     (case e of
        ErrorObject message \<Rightarrow> JStr message
      | OtherValue \<Rightarrow> JStr ''Failed to connect to AI service'')"

text \<open>
  The callbacks \<^verbatim>\<open>onDone\<close> and \<^verbatim>\<open>onError\<close> of the caller, as far as the call depends on
  them: whether a call of them returns (\<open>None\<close>) or throws. \<^verbatim>\<open>onDelta\<close> is taken to return.
\<close>

record callbacks =
  onDone_throws :: "thrown option"
  onError_throws :: "json \<Rightarrow> thrown option"

definition returning :: callbacks where
  "returning = \<lparr>onDone_throws = None, onError_throws = (\<lambda>v. None)\<rparr>"

text \<open>Both callbacks return.\<close>

definition returns :: "callbacks \<Rightarrow> bool" where
  "returns cb = (onDone_throws cb = None \<and> (\<forall>v. onError_throws cb v = None))"

text \<open>
  The \<^verbatim>\<open>catch\<close> block of \<^verbatim>\<open>streamChat\<close>; when the \<^verbatim>\<open>onError\<close> in it throws, the call ends
  with that exception, after the same calls.
\<close>

definition catchBlock :: "thrown \<Rightarrow> event list" where
  "catchBlock e = [OnError (catchMessage e)]"

text \<open>A call of \<^verbatim>\<open>onError\<close> or of \<^verbatim>\<open>onDone\<close> inside the \<^verbatim>\<open>try\<close> block, and what follows it.\<close>

definition callOnError :: "callbacks \<Rightarrow> json \<Rightarrow> event list" where
  "callOnError cb v =
     OnError v # (case onError_throws cb v of None \<Rightarrow> [] | Some e \<Rightarrow> catchBlock e)"

definition callOnDone :: "callbacks \<Rightarrow> event list" where
  "callOnDone cb =
     OnDone # (case onDone_throws cb of None \<Rightarrow> [] | Some e \<Rightarrow> catchBlock e)"

text \<open>
  The \<^verbatim>\<open>try\<close> block of \<^verbatim>\<open>streamChat\<close>, from the \<^verbatim>\<open>fetch\<close> on, with its \<^verbatim>\<open>catch\<close>. What comes
  before it, the reads of the attached files, calls no callback, and a read that fails is
  caught for each file.
  \<open>nullMessage\<close> is the message of the \<^verbatim>\<open>TypeError\<close> that the engine throws for
  \<^verbatim>\<open>errorData.error\<close> when the error body is the JSON \<^verbatim>\<open>null\<close>. The read after the last
  chunk is only made when the sentinel has not ended the loop before.
\<close>

definition streamChatWith ::
  "callbacks \<Rightarrow> (string \<Rightarrow> json option) \<Rightarrow> string \<Rightarrow> fetched \<Rightarrow> event list" where
  "streamChatWith cb parse nullMessage fetchResult =
     (case fetchResult of
        Pending \<Rightarrow> []
      | Rejected e \<Rightarrow> catchBlock e
      | Resolved resp \<Rightarrow>
          if \<not> resp_ok resp then
            (case resp_json resp of
               Pending \<Rightarrow> []
             | settledJson \<Rightarrow>
                 (let errorData = (case settledJson of
                                     Resolved j \<Rightarrow> j
                                   | other \<Rightarrow> JObj [(''error'', JStr ''Network error'')])
                  in if resp_status resp = 429 then
                       callOnError cb (JStr ''Rate limit exceeded. Please wait a moment and try again.'')
                     else if resp_status resp = 402 then
                       callOnError cb
                         (JStr ''AI credits exhausted. Please add credits to continue using this feature.'')
                     else if errorData = JNull then
                       catchBlock (ErrorObject nullMessage)
                     else if truthy (member errorData ''error'') then
                       callOnError cb (the (member errorData ''error''))
                     else
                       callOnError cb
                         (JStr (''Request failed with status '' @ showNat (resp_status resp)))))
          else
            (case resp_body resp of
               None \<Rightarrow> callOnError cb (JStr ''No response body received'')
             | Some (chunks, ending) \<Rightarrow>
                 (case outerLoop parse [] chunks of
                    (ds, b, streamDone) \<Rightarrow>
                      if streamDone then map OnDelta (ds @ finalFlush parse b) @ callOnDone cb
                      else
                        (case ending of
                           Resolved u \<Rightarrow> map OnDelta (ds @ finalFlush parse b) @ callOnDone cb
                         | Rejected e \<Rightarrow> map OnDelta ds @ catchBlock e
                         | Pending \<Rightarrow> map OnDelta ds))))"

text \<open>The call with callbacks that return.\<close>

definition streamChat :: "(string \<Rightarrow> json option) \<Rightarrow> string \<Rightarrow> fetched \<Rightarrow> event list" where
  "streamChat parse nullMessage fetchResult = streamChatWith returning parse nullMessage fetchResult"

text \<open>A response with status 200 whose body is read to its end.\<close>

definition okStream :: "string list \<Rightarrow> fetched" where
  "okStream chunks =
     Resolved \<lparr>resp_ok = True, resp_status = 200, resp_json = Rejected OtherValue,
               resp_body = Some (chunks, Resolved ())\<rparr>"

text \<open>Every promise that the call may await settles.\<close>

definition settles :: "fetched \<Rightarrow> bool" where
  "settles fetchResult =
     (case fetchResult of
        Pending \<Rightarrow> False
      | Rejected e \<Rightarrow> True
      | Resolved resp \<Rightarrow>
          if \<not> resp_ok resp then resp_json resp \<noteq> Pending
          else (case resp_body resp of None \<Rightarrow> True | Some (chunks, ending) \<Rightarrow> ending \<noteq> Pending))"

text \<open>\<^verbatim>\<open>onDone\<close> and \<^verbatim>\<open>onError\<close> are the terminal callbacks.\<close>

definition terminal :: "event \<Rightarrow> bool" where
  "terminal ev = (case ev of OnDelta v \<Rightarrow> False | OnDone \<Rightarrow> True | OnError v \<Rightarrow> True)"

subsection \<open>What the stream carries\<close>













text \<open>
  A parser for the examples: it reads three texts as \<^verbatim>\<open>JSON.parse\<close> does and rejects
  every other text.
\<close>

definition demoParse :: "string \<Rightarrow> json option" where
  \<open>demoParse s =
     (if s = ''{"choices":[{"delta":{"content":"Hi"}}]}'' then
        Some (JObj [(''choices'', JArr [JObj [(''delta'', JObj [(''content'', JStr ''Hi'')])]])])
      else if s = ''{"choices":[{"delta":{"content":"!"}}]}'' then
        Some (JObj [(''choices'', JArr [JObj [(''delta'', JObj [(''content'', JStr ''!'')])]])])
      else if s = ''{"choices":[{"delta":{}}]}'' then
        Some (JObj [(''choices'', JArr [JObj [(''delta'', JObj [])]])])
      else None)\<close>


section \<open>Attached files and the messages that are sent\<close>


text \<open>
  The content of a \<^verbatim>\<open>Message\<close> is a string or an array of parts; the text of the first
  part that \<^verbatim>\<open>streamChat\<close> builds is the former content, whatever it is.
\<close>

datatype content = Str string | Parts "part list"
  and part = TextPart content | ImageUrlPart string

datatype role = User | Assistant

record message =
  msg_role :: role
  msg_content :: content



















section \<open>The Index page\<close>

text \<open>
  The \<^verbatim>\<open>Message\<close> of the page and the state that the handlers of a send change: the
  list of messages, the typing flag, the toasts that were shown and, of the voice hook,
  the voice flag, the speaking flag and the texts that were sent to the text-to-speech
  function. State updates are applied in the order in which they are requested.
\<close>

record chatMessage =
  msg_id :: string
  chat_role :: role
  chat_content :: string

record page =
  page_messages :: "chatMessage list"
  page_isTyping :: bool
  page_toasts :: "string list"
  page_isVoiceEnabled :: bool
  page_isSpeaking :: bool
  page_ttsRequests :: "string list"

text \<open>
  \<^verbatim>\<open>speak\<close> of \<^verbatim>\<open>useVoiceResponse\<close>, up to the call of the text-to-speech function;
  \<open>isVoiceEnabled\<close> is the value that the closure captured.
\<close>

definition speak :: "bool \<Rightarrow> string \<Rightarrow> page \<Rightarrow> page" where
  "speak isVoiceEnabled t st =
     (if \<not> isVoiceEnabled \<or> trim t = [] then st
      else st\<lparr>page_isSpeaking := True, page_ttsRequests := page_ttsRequests st @ [t]\<rparr>)"

text \<open>
  \<^verbatim>\<open>toggleVoice\<close>, the handler of the voice button: it flips the flag and, when voice was
  enabled, stops the speaking.
\<close>

definition toggleVoice :: "page \<Rightarrow> page" where
  "toggleVoice st =
     st\<lparr>page_isVoiceEnabled := \<not> page_isVoiceEnabled st,
        page_isSpeaking := (if page_isVoiceEnabled st then False else page_isSpeaking st)\<rparr>"

definition userMessageOf :: "nat \<Rightarrow> string \<Rightarrow> chatMessage" where
  "userMessageOf now c = \<lparr>msg_id = showNat now, chat_role = User, chat_content = c\<rparr>"

text \<open>
  \<^verbatim>\<open>updateAssistantMessage\<close>: the state is the page and \<^verbatim>\<open>assistantContent\<close>; \<open>now\<close> is
  the clock when the chunk arrives.
\<close>

definition updateAssistantMessage :: "nat \<Rightarrow> string \<Rightarrow> page \<times> string \<Rightarrow> page \<times> string" where
  "updateAssistantMessage now chunk s =
     (case s of (st, assistantContent) \<Rightarrow>
        (let assistantContent' = assistantContent @ chunk;
             prev = page_messages st;
             appended = prev @ [\<lparr>msg_id = showNat (now + 1), chat_role = Assistant,
                                  chat_content = assistantContent'\<rparr>]
         in (st\<lparr>page_messages :=
                  (if prev \<noteq> [] \<and> chat_role (last prev) = Assistant
                   then butlast prev @ [(last prev)\<lparr>chat_content := assistantContent'\<rparr>]
                   else appended)\<rparr>,
             assistantContent')))"

text \<open>
  What happens while the call of \<^verbatim>\<open>streamChat\<close> runs: a chunk reaches \<^verbatim>\<open>onDelta\<close>, with the
  clock at its arrival, or the user clicks the voice button. The chat is taken not to be
  cleared meanwhile.
\<close>

datatype step = Chunk nat string | VoiceToggled

fun deliver :: "step list \<Rightarrow> page \<times> string \<Rightarrow> page \<times> string" where
  "deliver [] s = s"
| "deliver (Chunk now chunk # rest) s = deliver rest (updateAssistantMessage now chunk s)"
| "deliver (VoiceToggled # rest) s = deliver rest (toggleVoice (fst s), snd s)"

text \<open>The chunks among the steps, and the text that they make up.\<close>

fun chunksOf :: "step list \<Rightarrow> (nat \<times> string) list" where
  "chunksOf [] = []"
| "chunksOf (Chunk now chunk # rest) = (now, chunk) # chunksOf rest"
| "chunksOf (VoiceToggled # rest) = chunksOf rest"

definition textOf :: "step list \<Rightarrow> string" where
  "textOf steps = concat (map snd (chunksOf steps))"

definition onDone :: "bool \<Rightarrow> page \<times> string \<Rightarrow> page" where
  "onDone isVoiceEnabled s =
     (case s of (st, assistantContent) \<Rightarrow>
        (let st' = st\<lparr>page_isTyping := False\<rparr> in
         if isVoiceEnabled \<and> assistantContent \<noteq> [] then speak isVoiceEnabled assistantContent st'
         else st'))"

definition onError :: "string \<Rightarrow> string \<Rightarrow> page \<Rightarrow> page" where
  "onError userId description st =
     st\<lparr>page_isTyping := False,
        page_toasts := page_toasts st @ [description],
        page_messages := filter (\<lambda>m. msg_id m \<noteq> userId) (page_messages st)\<rparr>"

text \<open>
  How the call of \<^verbatim>\<open>streamChat\<close> ends for the page: \<^verbatim>\<open>onDone\<close>, \<^verbatim>\<open>onError\<close> with a
  description, or an exception that the \<^verbatim>\<open>catch\<close> of \<^verbatim>\<open>handleSendMessage\<close> handles.
\<close>

datatype ending = Done | Failed string | Threw

text \<open>
  \<^verbatim>\<open>handleSendMessage\<close>: \<open>isVoiceEnabled\<close> is the value that the closures of \<^verbatim>\<open>onDone\<close> and
  \<^verbatim>\<open>speak\<close> captured, \<open>now\<close> is the clock at the send, \<open>steps\<close> is what happens while the
  call runs.
\<close>

definition handleSendMessage ::
  "bool \<Rightarrow> nat \<Rightarrow> string \<Rightarrow> step list \<Rightarrow> ending \<Rightarrow> page \<Rightarrow> page" where
  "handleSendMessage isVoiceEnabled now c steps e st =
     (let userMessage = userMessageOf now c;
          st1 = st\<lparr>page_messages := page_messages st @ [userMessage], page_isTyping := True\<rparr>;
          s2 = deliver steps (st1, [])
      in case e of
           Done \<Rightarrow> onDone isVoiceEnabled s2
         | Failed description \<Rightarrow> onError (msg_id userMessage) description (fst s2)
         | Threw \<Rightarrow>
             onError (msg_id userMessage) ''An unexpected error occurred. Please try again.'' (fst s2))"

text \<open>
  A send on the page: the handler that the input calls is that of the last render, whose
  closures hold the voice flag of the page at the send.
\<close>

definition sendMessage :: "nat \<Rightarrow> string \<Rightarrow> step list \<Rightarrow> ending \<Rightarrow> page \<Rightarrow> page" where
  "sendMessage now c steps e st = handleSendMessage (page_isVoiceEnabled st) now c steps e st"


section \<open>The serverless handlers\<close>

datatype respBody = NoBody | JsonBody json | UpstreamBody

record httpResponse =
  http_status :: nat
  http_headers :: "(string \<times> string) list"
  http_body :: respBody

text \<open>The constant that each of the three handler files defines, with the same value.\<close>

definition corsHeaders :: "(string \<times> string) list" where
  "corsHeaders =
     [(''Access-Control-Allow-Origin'', ''*''),
      (''Access-Control-Allow-Headers'', ''authorization, x-client-info, apikey, content-type'')]"

text \<open>\<^verbatim>\<open>{ ...corsHeaders, 'Content-Type': t }\<close>\<close>

definition withContentType :: "string \<Rightarrow> (string \<times> string) list" where
  "withContentType t = corsHeaders @ [(''Content-Type'', t)]"

definition jsonResponse :: "nat \<Rightarrow> json \<Rightarrow> httpResponse" where
  "jsonResponse code j =
     \<lparr>http_status = code, http_headers = withContentType ''application/json'', http_body = JsonBody j\<rparr>"

definition preflight :: httpResponse where
  "preflight = \<lparr>http_status = 200, http_headers = corsHeaders, http_body = NoBody\<rparr>"

text \<open>The \<^verbatim>\<open>catch\<close> block of each handler.\<close>

definition catchResponse :: "thrown \<Rightarrow> httpResponse" where
  "catchResponse e =
     jsonResponse 500
       (JObj [(''error'', JStr (case e of ErrorObject message \<Rightarrow> message
                                       | OtherValue \<Rightarrow> ''Unknown error''))])"

text \<open>
  In the handlers below \<open>typeError\<close> is the message of the \<^verbatim>\<open>TypeError\<close> that the engine
  throws (for the destructuring of null, a property of null or undefined, the spread of
  a value that is not iterable, a value that cannot be converted to a string). A read of
  the environment is \<open>Inl e\<close> when \<^verbatim>\<open>Deno.env.get\<close> throws \<open>e\<close>; a variable that is unset
  or empty is falsy.
\<close>

definition configured :: "string option \<Rightarrow> bool" where
  "configured v = (case v of None \<Rightarrow> False | Some t \<Rightarrow> t \<noteq> [])"

text \<open>
  A value inside a template literal: \<open>str\<close> is the conversion of a JSON value to a string,
  the platform's, \<open>None\<close> where it throws (an object whose \<^verbatim>\<open>toString\<close> and \<^verbatim>\<open>valueOf\<close> give
  no primitive value); undefined becomes the text \<^verbatim>\<open>undefined\<close>.
\<close>

definition interpolated :: "(json \<Rightarrow> string option) \<Rightarrow> json option \<Rightarrow> string option" where
  "interpolated str v = (case v of None \<Rightarrow> Some ''undefined'' | Some j \<Rightarrow> str j)"

subsection \<open>chat\<close>

record gatewayResponse =
  gw_ok :: bool
  gw_status :: nat
  gw_text :: "thrown + string"

record chatRequest =
  chat_method :: string
  chat_json :: "thrown + json"
  chat_apiKey :: "thrown + string option"
  chat_gateway :: "thrown + gatewayResponse"

definition iterable :: "json option \<Rightarrow> bool" where
  "iterable v = (case v of Some (JArr xs) \<Rightarrow> True | Some (JStr t) \<Rightarrow> True | other \<Rightarrow> False)"

definition chatHandler :: "string \<Rightarrow> chatRequest \<Rightarrow> httpResponse" where
  "chatHandler typeError req =
     (if chat_method req = ''OPTIONS'' then preflight
      else case chat_json req of
        Inl e \<Rightarrow> catchResponse e
      | Inr j \<Rightarrow>
          if j = JNull then catchResponse (ErrorObject typeError)
          else (case chat_apiKey req of
            Inl e \<Rightarrow> catchResponse e
          | Inr LOVABLE_API_KEY \<Rightarrow>
              if \<not> configured LOVABLE_API_KEY then
                catchResponse (ErrorObject ''LOVABLE_API_KEY is not configured'')
              else if member j ''messages'' = None \<or> member j ''messages'' = Some JNull then
                catchResponse (ErrorObject typeError)
              else if \<not> iterable (member j ''messages'') then
                catchResponse (ErrorObject typeError)
              else (case chat_gateway req of
                Inl e \<Rightarrow> catchResponse e
              | Inr response \<Rightarrow>
                  if \<not> gw_ok response then
                    (case gw_text response of
                       Inl e \<Rightarrow> catchResponse e
                     | Inr errorText \<Rightarrow>
                         if gw_status response = 429 then
                           jsonResponse 429
                             (JObj [(''error'', JStr ''Rate limit exceeded. Please try again in a moment.'')])
                         else if gw_status response = 402 then
                           jsonResponse 402
                             (JObj [(''error'', JStr ''AI credits exhausted. Please add credits to continue.'')])
                         else jsonResponse 500 (JObj [(''error'', JStr ''AI service error'')]))
                  else \<lparr>http_status = 200, http_headers = withContentType ''text/event-stream'',
                         http_body = UpstreamBody\<rparr>)))"

subsection \<open>signup-notification\<close>

record resendResponse =
  rs_ok :: bool
  rs_text :: "thrown + string"
  rs_json :: "thrown + json"

record signupRequest =
  su_method :: string
  su_json :: "thrown + json"
  su_apiKey :: "thrown + string option"
  su_resend :: "thrown + resendResponse"

text \<open>The JSON body of the request to the email service.\<close>

record email =
  email_from :: string
  email_to :: "string list"
  email_subject :: string
  email_html :: string

text \<open>
  The template literal of the \<^verbatim>\<open>html\<close> field. \<open>dateString\<close> is
  \<^verbatim>\<open>new Date(v).toLocaleString()\<close>, the platform's, \<open>None\<close> where the conversion of \<open>v\<close>
  throws. The email is converted first.
\<close>

definition signupHtml ::
  "(json \<Rightarrow> string option) \<Rightarrow> (json option \<Rightarrow> string option) \<Rightarrow> json option \<Rightarrow> json option \<Rightarrow>
     string option" where
  "signupHtml str dateString emailValue created_at =
     (case interpolated str emailValue of
        None \<Rightarrow> None
      | Some emailText \<Rightarrow>
          (case dateString created_at of
             None \<Rightarrow> None
           | Some dateText \<Rightarrow>
               Some (''\<newline>          <h1>New User Signup</h1>'' @
                     ''\<newline>          <p>A new user has signed up for your AI Assistant application.</p>'' @
                     ''\<newline>          <h2>User Details:</h2>'' @
                     ''\<newline>          <ul>'' @
                     ''\<newline>            <li><strong>Email:</strong> '' @ emailText @ ''</li>'' @
                     ''\<newline>            <li><strong>Signup Date:</strong> '' @ dateText @ ''</li>'' @
                     ''\<newline>          </ul>'' @
                     ''\<newline>          <p>This is an automated notification from your AI Assistant application.</p>'' @
                     ''\<newline>        '')))"

definition signupEmail :: "string \<Rightarrow> email" where
  "signupEmail html =
     \<lparr>email_from = ''AI Assistant <onboarding@resend.dev>'',
      email_to = [''santimwamba0@gmail.com''],
      email_subject = ''New User Signup - AI Assistant'',
      email_html = html\<rparr>"

text \<open>The handler: the emails that it asks the email service to send, and its response.\<close>

definition signupHandler ::
  "(json \<Rightarrow> string option) \<Rightarrow> (json option \<Rightarrow> string option) \<Rightarrow> string \<Rightarrow> signupRequest \<Rightarrow>
     email list \<times> httpResponse" where
  "signupHandler str dateString typeError req =
     (if su_method req = ''OPTIONS'' then ([], preflight)
      else case su_json req of
        Inl e \<Rightarrow> ([], catchResponse e)
      | Inr j \<Rightarrow>
          if j = JNull then ([], catchResponse (ErrorObject typeError))
          else (case su_apiKey req of
            Inl e \<Rightarrow> ([], catchResponse e)
          | Inr RESEND_API_KEY \<Rightarrow>
              if \<not> configured RESEND_API_KEY then
                ([], catchResponse (ErrorObject ''RESEND_API_KEY is not configured''))
              else (case signupHtml str dateString (member j ''email'') (member j ''created_at'') of
                None \<Rightarrow> ([], catchResponse (ErrorObject typeError))
              | Some html \<Rightarrow>
                  (let sent = [signupEmail html] in
                   case su_resend req of
                     Inl e \<Rightarrow> (sent, catchResponse e)
                   | Inr emailResponse \<Rightarrow>
                       if \<not> rs_ok emailResponse then
                         (case rs_text emailResponse of
                            Inl e \<Rightarrow> (sent, catchResponse e)
                          | Inr errorText \<Rightarrow>
                              (sent, catchResponse (ErrorObject (''Failed to send email: '' @ errorText))))
                       else (case rs_json emailResponse of
                               Inl e \<Rightarrow> (sent, catchResponse e)
                             | Inr result \<Rightarrow>
                                 (sent, jsonResponse 200 (JObj [(''success'', JBool True)])))))))"

subsection \<open>cloudinary\<close>

definition hexDigit :: "nat \<Rightarrow> char" where
  "hexDigit n = ''0123456789abcdef'' ! n"

text \<open>\<^verbatim>\<open>n.toString(16)\<close> and \<^verbatim>\<open>s.padStart(2, '0')\<close>\<close>

fun toString16 :: "nat \<Rightarrow> string" where
  "toString16 n =
     (if n < 16 then [hexDigit n] else toString16 (n div 16) @ [hexDigit (n mod 16)])"

declare toString16.simps [simp del]

definition padStart2 :: "string \<Rightarrow> string" where
  "padStart2 t = replicate (2 - length t) CHR ''0'' @ t"

text \<open>
  The signature, as both branches compute it: \<open>encode\<close> is \<^verbatim>\<open>TextEncoder.encode\<close> and \<open>sha1\<close>
  is \<^verbatim>\<open>crypto.subtle.digest('SHA-1', _)\<close>, the platform's.
\<close>

definition signatureOf ::
  "(8 word list \<Rightarrow> 8 word list) \<Rightarrow> (string \<Rightarrow> 8 word list) \<Rightarrow> string \<Rightarrow> string \<Rightarrow> string" where
  "signatureOf sha1 encode paramsToSign secret =
     (let hashArray = sha1 (encode (paramsToSign @ secret)) in
      concat (map (\<lambda>b. padStart2 (toString16 (unat b))) hashArray))"

text \<open>\<^verbatim>\<open>Math.round(Date.now() / 1000)\<close> for the clock in milliseconds.\<close>

definition timestampOf :: "nat \<Rightarrow> nat" where
  "timestampOf now = (now + 500) div 1000"

record upstreamResponse =
  up_ok :: bool
  up_text :: "thrown + string"
  up_json :: "thrown + json"

record cloudinaryRequest =
  cl_method :: string
  cl_cloudName :: "thrown + string option"
  cl_apiKey :: "thrown + string option"
  cl_apiSecret :: "thrown + string option"
  cl_json :: "thrown + json"
  cl_now :: nat
  cl_upstream :: "thrown + upstreamResponse"

text \<open>A request that the handler sends to Cloudinary: the URL and the fields of the form.\<close>

record outgoing =
  out_url :: string
  out_form :: "(string \<times> string) list"

definition uploadRequest ::
  "(8 word list \<Rightarrow> 8 word list) \<Rightarrow> (string \<Rightarrow> 8 word list) \<Rightarrow> string \<Rightarrow> string \<Rightarrow> string \<Rightarrow> nat \<Rightarrow>
     string \<Rightarrow> outgoing" where
  "uploadRequest sha1 encode cloudName apiKey apiSecret now fileData =
     (let timestamp = timestampOf now;
          paramsToSign = ''timestamp='' @ showNat timestamp;
          signature = signatureOf sha1 encode paramsToSign apiSecret
      in \<lparr>out_url = ''https://api.cloudinary.com/v1_1/'' @ cloudName @ ''/image/upload'',
           out_form = [(''file'', fileData), (''api_key'', apiKey),
                       (''timestamp'', showNat timestamp), (''signature'', signature)]\<rparr>)"

definition deleteRequest ::
  "(8 word list \<Rightarrow> 8 word list) \<Rightarrow> (string \<Rightarrow> 8 word list) \<Rightarrow> string \<Rightarrow> string \<Rightarrow> string \<Rightarrow> nat \<Rightarrow>
     string \<Rightarrow> outgoing" where
  "deleteRequest sha1 encode cloudName apiKey apiSecret now publicId =
     (let timestamp = timestampOf now;
          paramsToSign = ''public_id='' @ publicId @ ''&timestamp='' @ showNat timestamp;
          signature = signatureOf sha1 encode paramsToSign apiSecret
      in \<lparr>out_url = ''https://api.cloudinary.com/v1_1/'' @ cloudName @ ''/image/destroy'',
           out_form = [(''public_id'', publicId), (''api_key'', apiKey),
                       (''timestamp'', showNat timestamp), (''signature'', signature)]\<rparr>)"

text \<open>The fields of the upload result that are defined, as \<^verbatim>\<open>JSON.stringify\<close> keeps them.\<close>

definition pick :: "json \<Rightarrow> (string \<times> string) list \<Rightarrow> (string \<times> json) list" where
  "pick result names =
     List.map_filter (\<lambda>(k, k'). map_option (\<lambda>v. (k, v)) (member result k')) names"

text \<open>
  The three actions, for credentials that are configured and a body \<open>j\<close> that is not
  null: the requests that are sent to Cloudinary and the response. \<open>str\<close> converts a value
  in a template literal and in \<^verbatim>\<open>FormData.append\<close>; where it throws, nothing has been sent
  yet.
\<close>

definition uploadAction ::
  "(8 word list \<Rightarrow> 8 word list) \<Rightarrow> (string \<Rightarrow> 8 word list) \<Rightarrow> (json \<Rightarrow> string option) \<Rightarrow> string \<Rightarrow>
     string \<Rightarrow> string \<Rightarrow> string \<Rightarrow> cloudinaryRequest \<Rightarrow> json \<Rightarrow> outgoing list \<times> httpResponse" where
  "uploadAction sha1 encode str typeError cloudName apiKey apiSecret req j =
     (let fileValue = member j ''file'' in
      if \<not> truthy fileValue then
        ([], catchResponse (ErrorObject ''File data is required for upload''))
      else case str (the fileValue) of
        None \<Rightarrow> ([], catchResponse (ErrorObject typeError))
      | Some fileData \<Rightarrow>
          (let sent = [uploadRequest sha1 encode cloudName apiKey apiSecret (cl_now req) fileData]
           in case cl_upstream req of
                Inl e \<Rightarrow> (sent, catchResponse e)
              | Inr uploadResponse \<Rightarrow>
                  if \<not> up_ok uploadResponse then
                    (case up_text uploadResponse of
                       Inl e \<Rightarrow> (sent, catchResponse e)
                     | Inr errorText \<Rightarrow>
                         (sent, catchResponse (ErrorObject (''Upload failed: '' @ errorText))))
                  else
                    (case up_json uploadResponse of
                       Inl e \<Rightarrow> (sent, catchResponse e)
                     | Inr result \<Rightarrow>
                         if result = JNull then (sent, catchResponse (ErrorObject typeError))
                         else (sent, jsonResponse 200
                                 (JObj (pick result
                                    [(''url'', ''secure_url''), (''publicId'', ''public_id''),
                                     (''format'', ''format''), (''width'', ''width''),
                                     (''height'', ''height''), (''bytes'', ''bytes'')]))))))"

definition transformAction ::
  "(json \<Rightarrow> string option) \<Rightarrow> string \<Rightarrow> string \<Rightarrow> json \<Rightarrow> outgoing list \<times> httpResponse" where
  "transformAction str typeError cloudName j =
     (let publicId = member j ''publicId'';
          transformations = member j ''transformations''
      in if \<not> truthy publicId then
           ([], catchResponse (ErrorObject ''Public ID is required for transformation''))
         else case (if truthy transformations then str (the transformations)
                    else Some ''w_500,h_500,c_fill'') of
           None \<Rightarrow> ([], catchResponse (ErrorObject typeError))
         | Some transformStr \<Rightarrow>
             (case str (the publicId) of
                None \<Rightarrow> ([], catchResponse (ErrorObject typeError))
              | Some publicIdText \<Rightarrow>
                  ([], jsonResponse 200
                         (JObj [(''url'', JStr (''https://res.cloudinary.com/'' @ cloudName @
                                   ''/image/upload/'' @ transformStr @ ''/'' @ publicIdText))]))))"

definition deleteAction ::
  "(8 word list \<Rightarrow> 8 word list) \<Rightarrow> (string \<Rightarrow> 8 word list) \<Rightarrow> (json \<Rightarrow> string option) \<Rightarrow> string \<Rightarrow>
     string \<Rightarrow> string \<Rightarrow> string \<Rightarrow> cloudinaryRequest \<Rightarrow> json \<Rightarrow> outgoing list \<times> httpResponse" where
  "deleteAction sha1 encode str typeError cloudName apiKey apiSecret req j =
     (let publicId = member j ''publicId'' in
      if \<not> truthy publicId then
        ([], catchResponse (ErrorObject ''Public ID is required for deletion''))
      else case str (the publicId) of
        None \<Rightarrow> ([], catchResponse (ErrorObject typeError))
      | Some publicIdText \<Rightarrow>
          (let sent = [deleteRequest sha1 encode cloudName apiKey apiSecret (cl_now req) publicIdText]
           in case cl_upstream req of
                Inl e \<Rightarrow> (sent, catchResponse e)
              | Inr deleteResponse \<Rightarrow>
                  (case up_json deleteResponse of
                     Inl e \<Rightarrow> (sent, catchResponse e)
                   | Inr result \<Rightarrow>
                       if result = JNull then (sent, catchResponse (ErrorObject typeError))
                       else (sent, jsonResponse 200
                               (JObj [(''success'',
                                  JBool (member result ''result'' = Some (JStr ''ok'')))])))))"

text \<open>The handler: the requests that it sends to Cloudinary and its response.\<close>

definition cloudinaryHandler ::
  "(8 word list \<Rightarrow> 8 word list) \<Rightarrow> (string \<Rightarrow> 8 word list) \<Rightarrow> (json \<Rightarrow> string option) \<Rightarrow> string \<Rightarrow>
     cloudinaryRequest \<Rightarrow> outgoing list \<times> httpResponse" where
  "cloudinaryHandler sha1 encode str typeError req =
     (if cl_method req = ''OPTIONS'' then ([], preflight)
      else case cl_cloudName req of
        Inl e \<Rightarrow> ([], catchResponse e)
      | Inr CLOUDINARY_CLOUD_NAME \<Rightarrow>
          (case cl_apiKey req of
             Inl e \<Rightarrow> ([], catchResponse e)
           | Inr CLOUDINARY_API_KEY \<Rightarrow>
               (case cl_apiSecret req of
                  Inl e \<Rightarrow> ([], catchResponse e)
                | Inr CLOUDINARY_API_SECRET \<Rightarrow>
                    if \<not> configured CLOUDINARY_CLOUD_NAME \<or> \<not> configured CLOUDINARY_API_KEY \<or>
                       \<not> configured CLOUDINARY_API_SECRET then
                      ([], catchResponse (ErrorObject ''Cloudinary credentials are not configured''))
                    else
                      (case cl_json req of
                         Inl e \<Rightarrow> ([], catchResponse e)
                       | Inr j \<Rightarrow>
                           if j = JNull then ([], catchResponse (ErrorObject typeError))
                           else if member j ''action'' = Some (JStr ''upload'') then
                             uploadAction sha1 encode str typeError (the CLOUDINARY_CLOUD_NAME)
                               (the CLOUDINARY_API_KEY) (the CLOUDINARY_API_SECRET) req j
                           else if member j ''action'' = Some (JStr ''transform'') then
                             transformAction str typeError (the CLOUDINARY_CLOUD_NAME) j
                           else if member j ''action'' = Some (JStr ''delete'') then
                             deleteAction sha1 encode str typeError (the CLOUDINARY_CLOUD_NAME)
                               (the CLOUDINARY_API_KEY) (the CLOUDINARY_API_SECRET) req j
                           else ([], catchResponse
                                   (ErrorObject ''Invalid action. Use: upload, transform, or delete''))))))"


text \<open>A response carries the header \<^verbatim>\<open>Access-Control-Allow-Origin: *\<close>.\<close>

definition allowsAnyOrigin :: "httpResponse \<Rightarrow> bool" where
  "allowsAnyOrigin r = (map_of (http_headers r) ''Access-Control-Allow-Origin'' = Some ''*'')"





section \<open>The signup trigger\<close>

text \<open>
  A row of \<^verbatim>\<open>auth.users\<close>: the two columns that the function reads, null or the text of
  the value, and the other columns. The table and the queue of \<^verbatim>\<open>net.http_post\<close> are the
  state of the database; \<^verbatim>\<open>current_setting\<close> raises an error for a parameter that is
  not set.
\<close>

record userRow =
  row_email :: "string option"
  row_created_at :: "string option"
  row_other :: "(string \<times> json) list"

record httpPost =
  post_url :: string
  post_headers :: "(string \<times> string) list"
  post_body :: json

record database =
  db_users :: "userRow list"
  db_requests :: "httpPost list"

datatype sqlError = UnrecognizedParameter string

definition current_setting :: "(string \<Rightarrow> string option) \<Rightarrow> string \<Rightarrow> sqlError + string" where
  "current_setting settings name =
     (case settings name of None \<Rightarrow> Inl (UnrecognizedParameter name) | Some v \<Rightarrow> Inr v)"

text \<open>A column value inside \<^verbatim>\<open>jsonb_build_object\<close>.\<close>

definition to_jsonb :: "string option \<Rightarrow> json" where
  "to_jsonb v = (case v of None \<Rightarrow> JNull | Some t \<Rightarrow> JStr t)"

text \<open>
  \<^verbatim>\<open>notify_new_signup\<close>: the row that it returns and the queue of requests after the call.
\<close>

definition notify_new_signup ::
  "(string \<Rightarrow> string option) \<Rightarrow> userRow \<Rightarrow> httpPost list \<Rightarrow> sqlError + (userRow \<times> httpPost list)" where
  "notify_new_signup settings NEW queue =
     (case current_setting settings ''app.settings.supabase_url'' of
        Inl e \<Rightarrow> Inl e
      | Inr supabase_url \<Rightarrow>
          (case current_setting settings ''app.settings.service_role_key'' of
             Inl e \<Rightarrow> Inl e
           | Inr service_role_key \<Rightarrow>
               Inr (NEW,
                    queue @
                    [\<lparr>post_url = supabase_url @ ''/functions/v1/signup-notification'',
                      post_headers = [(''Content-Type'', ''application/json''),
                                      (''Authorization'', ''Bearer '' @ service_role_key)],
                      post_body = JObj [(''email'', to_jsonb (row_email NEW)),
                                        (''created_at'', to_jsonb (row_created_at NEW))]\<rparr>])))"

datatype timing = Before | After
datatype triggerEvent = OnInsert | OnUpdate | OnDelete
datatype triggerLevel = ForEachRow | ForEachStatement

record trigger =
  trg_name :: string
  trg_timing :: timing
  trg_event :: triggerEvent
  trg_table :: string
  trg_level :: triggerLevel
  trg_function :: string

text \<open>The trigger that the migration creates, after it has dropped one of the same name.\<close>

definition on_auth_user_created_notify :: trigger where
  "on_auth_user_created_notify =
     \<lparr>trg_name = ''on_auth_user_created_notify'', trg_timing = After, trg_event = OnInsert,
      trg_table = ''auth.users'', trg_level = ForEachRow,
      trg_function = ''public.notify_new_signup''\<rparr>"

text \<open>
  The database's part: an \<^verbatim>\<open>INSERT\<close> into \<^verbatim>\<open>auth.users\<close> stores the rows and then calls,
  for each row in turn, the function of every trigger that is declared for the table
  \<^verbatim>\<open>AFTER INSERT ... FOR EACH ROW\<close>; an error in a function aborts the statement. The
  result of a function that is called after the insertion is not used.
\<close>

definition fires :: "trigger \<Rightarrow> bool" where
  "fires t = (trg_table t = ''auth.users'' \<and> trg_event t = OnInsert \<and> trg_timing t = After \<and>
              trg_level t = ForEachRow)"

fun callTriggers ::
  "(string \<Rightarrow> string option) \<Rightarrow> trigger list \<Rightarrow> userRow \<Rightarrow> httpPost list \<Rightarrow> sqlError + httpPost list" where
  "callTriggers settings [] r queue = Inr queue"
| "callTriggers settings (t # ts) r queue =
     (if fires t \<and> trg_function t = ''public.notify_new_signup'' then
        (case notify_new_signup settings r queue of
           Inl e \<Rightarrow> Inl e
         | Inr (returned, queue') \<Rightarrow> callTriggers settings ts r queue')
      else callTriggers settings ts r queue)"

fun afterInsert ::
  "(string \<Rightarrow> string option) \<Rightarrow> trigger list \<Rightarrow> userRow list \<Rightarrow> httpPost list \<Rightarrow> sqlError + httpPost list" where
  "afterInsert settings ts [] queue = Inr queue"
| "afterInsert settings ts (r # rs) queue =
     (case callTriggers settings ts r queue of
        Inl e \<Rightarrow> Inl e
      | Inr queue' \<Rightarrow> afterInsert settings ts rs queue')"

definition insertUsers ::
  "(string \<Rightarrow> string option) \<Rightarrow> userRow list \<Rightarrow> database \<Rightarrow> sqlError + database" where
  "insertUsers settings rows db =
     (case afterInsert settings [on_auth_user_created_notify] rows (db_requests db) of
        Inl e \<Rightarrow> Inl e
      | Inr queue \<Rightarrow> Inr \<lparr>db_users = db_users db @ rows, db_requests = queue\<rparr>)"

text \<open>The body that the request for a row is to carry: exactly its email and its creation time.\<close>

definition signupBody :: "userRow \<Rightarrow> json" where
  "signupBody r = JObj [(''email'', to_jsonb (row_email r)), (''created_at'', to_jsonb (row_created_at r))]"

subsection \<open>Notions for the proofs about the parser\<close>









section \<open>Examples\<close>

text \<open>Concrete inputs on which the theorems below are evaluated.\<close>

definition demoChunks :: "string list" where
  \<open>demoChunks =
     [''data: {"choi'',
      ''ces":[{"delta":{"content":"Hi"}}]}\<newline>\<newline>data: {"choices":[{"delta":{}}]}\<newline>: ping\<newline>da'',
      ''ta: {"choices":[{"delta":{"content":"!"}}]}\<newline>data: [DONE]\<newline>\<newline>'']\<close>



definition brokenChunks :: "string list" where
  \<open>brokenChunks =
     [''data: {"choices":[{"delta":{"content":"Hi"}}]}\<newline>data: {"cho\<newline>da'',
      ''ta: {"choices":[{"delta":{"content":"!"}}]}\<newline>data: [DONE]\<newline>\<newline>'']\<close>

definition demoSettings :: "string \<Rightarrow> string option" where
  "demoSettings name =
     (if name = ''app.settings.supabase_url'' then Some ''https://demo.supabase.co''
      else if name = ''app.settings.service_role_key'' then Some ''key''
      else None)"

definition demoRow :: userRow where
  "demoRow = \<lparr>row_email = Some ''ann@example.org'', row_created_at = Some ''2025-01-01T00:00:00+00:00'',
              row_other = [(''id'', JStr ''u1'')]\<rparr>"

definition demoPost :: httpPost where
  "demoPost =
     \<lparr>post_url = ''https://demo.supabase.co/functions/v1/signup-notification'',
      post_headers = [(''Content-Type'', ''application/json''), (''Authorization'', ''Bearer key'')],
      post_body = JObj [(''email'', JStr ''ann@example.org''),
                        (''created_at'', JStr ''2025-01-01T00:00:00+00:00'')]\<rparr>"




definition welcomePage :: page where
  "welcomePage =
     \<lparr>page_messages = [\<lparr>msg_id = ''welcome'', chat_role = Assistant, chat_content = ''Hello''\<rparr>],
      page_isTyping = False, page_toasts = [], page_isVoiceEnabled = False,
      page_isSpeaking = False, page_ttsRequests = []\<rparr>"

definition voicePage :: page where
  "voicePage = welcomePage\<lparr>page_isVoiceEnabled := True\<rparr>"



text \<open>
  Stand-ins for the platform's functions: an encoder that gives the codes of the
  characters, a digest of two bytes (the number of the bytes and their sum), conversions
  that succeed on strings.
\<close>

definition demoEncode :: "string \<Rightarrow> 8 word list" where
  "demoEncode t = map (\<lambda>c. of_nat (of_char c)) t"

definition demoSha1 :: "8 word list \<Rightarrow> 8 word list" where
  "demoSha1 bytes = [of_nat (length bytes), of_nat (sum_list (map unat bytes))]"

definition demoStr :: "json \<Rightarrow> string option" where
  "demoStr v = (case v of JStr t \<Rightarrow> Some t | other \<Rightarrow> None)"

definition demoDate :: "json option \<Rightarrow> string option" where
  "demoDate v = (case v of Some (JStr t) \<Rightarrow> Some t | Some (JObj kvs) \<Rightarrow> None | other \<Rightarrow> Some ''Invalid Date'')"

definition demoUpload :: cloudinaryRequest where
  "demoUpload =
     \<lparr>cl_method = ''POST'', cl_cloudName = Inr (Some ''demo''), cl_apiKey = Inr (Some ''123''),
      cl_apiSecret = Inr (Some ''s3cret''),
      cl_json = Inr (JObj [(''action'', JStr ''upload''), (''file'', JStr ''data:image/png;base64,AAAA'')]),
      cl_now = 1499,
      cl_upstream = Inl OtherValue\<rparr>"


definition demoChatRequest :: chatRequest where
  "demoChatRequest =
     \<lparr>chat_method = ''POST'', chat_json = Inr (JObj [(''messages'', JArr [])]),
      chat_apiKey = Inr (Some ''k''),
      chat_gateway = Inr \<lparr>gw_ok = False, gw_status = 429, gw_text = Inr ''slow down''\<rparr>\<rparr>"

definition demoSignupRequest :: signupRequest where
  "demoSignupRequest =
     \<lparr>su_method = ''POST'', su_json = Inr (JObj [(''email'', JObj [(''toString'', JNum 1)])]),
      su_apiKey = Inr (Some ''k''), su_resend = Inl OtherValue\<rparr>"

text \<open>An \<^verbatim>\<open>onDone\<close> that throws, and a stream with a malformed line after the sentinel.\<close>

definition throwingDone :: callbacks where
  "throwingDone = \<lparr>onDone_throws = Some (ErrorObject ''boom''), onError_throws = (\<lambda>v. None)\<rparr>"


section \<open>Lemmas\<close>

subsection \<open>Lines, buffers and the two loops\<close>















































subsection \<open>The loops against the notions of the specification\<close>



















lemma callOnDone_returns: "returns cb \<Longrightarrow> callOnDone cb = [OnDone]"
  by (simp add: returns_def callOnDone_def)

lemma callOnError_returns: "returns cb \<Longrightarrow> callOnError cb v = [OnError v]"
  by (simp add: returns_def callOnError_def)

subsection \<open>Responses of the handlers\<close>

lemma cors_preflight: "allowsAnyOrigin preflight"
  by (simp add: allowsAnyOrigin_def preflight_def corsHeaders_def)

lemma cors_jsonResponse: "allowsAnyOrigin (jsonResponse code j)"
  by (simp add: allowsAnyOrigin_def jsonResponse_def withContentType_def corsHeaders_def)

lemma cors_catchResponse: "allowsAnyOrigin (catchResponse e)"
  by (simp add: catchResponse_def cors_jsonResponse)

lemma cors_stream:
  "allowsAnyOrigin \<lparr>http_status = 200, http_headers = withContentType ''text/event-stream'',
                     http_body = UpstreamBody\<rparr>"
  by (simp add: allowsAnyOrigin_def withContentType_def corsHeaders_def)

lemmas cors_simps = cors_preflight cors_jsonResponse cors_catchResponse cors_stream

lemma cors_chat: "allowsAnyOrigin (chatHandler typeError req)"
  by (simp add: chatHandler_def cors_simps split: sum.splits)

lemma cors_signup: "allowsAnyOrigin (snd (signupHandler str dateString typeError req))"
  by (simp add: signupHandler_def cors_simps Let_def split: sum.splits option.splits)

lemma cors_upload:
  "allowsAnyOrigin (snd (uploadAction sha1 encode str typeError cloudName apiKey apiSecret req j))"
  by (simp add: uploadAction_def cors_simps Let_def split: sum.splits option.splits)

lemma cors_transform: "allowsAnyOrigin (snd (transformAction str typeError cloudName j))"
  by (simp add: transformAction_def cors_simps Let_def split: option.splits)

lemma cors_delete:
  "allowsAnyOrigin (snd (deleteAction sha1 encode str typeError cloudName apiKey apiSecret req j))"
  by (simp add: deleteAction_def cors_simps Let_def split: sum.splits option.splits)

lemma cors_cloudinary: "allowsAnyOrigin (snd (cloudinaryHandler sha1 encode str typeError req))"
  by (simp add: cloudinaryHandler_def cors_simps cors_upload cors_transform cors_delete
        split: sum.splits)

subsection \<open>The signature and the trigger\<close>














lemma endsWith_append: "endsWith (a @ p) p"
  by (simp add: endsWith_def)

lemma notify_result:
  "notify_new_signup settings NEW q = Inr (r, q') \<Longrightarrow>
   r = NEW \<and> (\<exists>p. q' = q @ [p] \<and> post_body p = signupBody NEW \<and>
                 endsWith (post_url p) ''/functions/v1/signup-notification'')"
  by (auto simp: notify_new_signup_def signupBody_def endsWith_append
           split: sum.splits)

lemma callTriggers_one:
  "callTriggers settings [on_auth_user_created_notify] r q = Inr q' \<Longrightarrow>
   \<exists>p. q' = q @ [p] \<and> post_body p = signupBody r \<and>
       endsWith (post_url p) ''/functions/v1/signup-notification''"
proof -
  assume a: "callTriggers settings [on_auth_user_created_notify] r q = Inr q'"
  have f: "fires on_auth_user_created_notify"
    "trg_function on_auth_user_created_notify = ''public.notify_new_signup''"
    by (simp_all add: fires_def on_auth_user_created_notify_def)
  from a f obtain ret where "notify_new_signup settings r q = Inr (ret, q')"
    by (auto split: sum.splits)
  from notify_result[OF this] show ?thesis by blast
qed

lemma afterInsert_posts:
  "afterInsert settings [on_auth_user_created_notify] rows q = Inr q' \<Longrightarrow>
   \<exists>posts. q' = q @ posts \<and> map post_body posts = map signupBody rows \<and>
     (\<forall>p \<in> set posts. endsWith (post_url p) ''/functions/v1/signup-notification'')"
proof (induction rows arbitrary: q)
  case Nil
  then show ?case by simp
next
  case (Cons r rows)
  from Cons.prems obtain q1 where
    q1: "callTriggers settings [on_auth_user_created_notify] r q = Inr q1"
        "afterInsert settings [on_auth_user_created_notify] rows q1 = Inr q'"
    by (auto split: sum.splits)
  from callTriggers_one[OF q1(1)] obtain p where
    p: "q1 = q @ [p]" "post_body p = signupBody r"
       "endsWith (post_url p) ''/functions/v1/signup-notification''" by blast
  from Cons.IH[OF q1(2)] obtain posts where
    ps: "q' = q1 @ posts" "map post_body posts = map signupBody rows"
        "\<forall>p \<in> set posts. endsWith (post_url p) ''/functions/v1/signup-notification''" by blast
  show ?case using p ps by (intro exI[of _ "p # posts"]) simp
qed

subsection \<open>Attached files\<close>











subsection \<open>The handlers of a send\<close>

lemma textOf_simps [simp]:
  "textOf [] = []"
  "textOf (Chunk now chunk # rest) = chunk @ textOf rest"
  "textOf (VoiceToggled # rest) = textOf rest"
  by (simp_all add: textOf_def)


lemma deliver_content: "snd (deliver steps (st, ac)) = ac @ textOf steps"
  by (induction steps arbitrary: st ac rule: chunksOf.induct)
     (simp_all add: updateAssistantMessage_def Let_def)

lemma deliver_frame:
  "page_ttsRequests (fst (deliver steps s)) = page_ttsRequests (fst s) \<and>
   page_isTyping (fst (deliver steps s)) = page_isTyping (fst s) \<and>
   page_toasts (fst (deliver steps s)) = page_toasts (fst s)"
  by (induction steps s rule: deliver.induct)
     (auto simp: updateAssistantMessage_def toggleVoice_def Let_def split: prod.splits)

lemma deliver_voice:
  "VoiceToggled \<notin> set steps \<Longrightarrow>
   page_isVoiceEnabled (fst (deliver steps s)) = page_isVoiceEnabled (fst s)"
  by (induction steps s rule: deliver.induct)
     (auto simp: updateAssistantMessage_def Let_def split: prod.splits)



lemma trim_nonempty: "trim t \<noteq> [] \<Longrightarrow> t \<noteq> []"
  by (auto simp: trim_def)

lemma handleSendMessage_done_tts:
  "page_ttsRequests (handleSendMessage v now c steps Done st) =
     (if v \<and> trim (textOf steps) \<noteq> []
      then page_ttsRequests st @ [textOf steps] else page_ttsRequests st)"
proof -
  define st1 where "st1 = st\<lparr>page_messages := page_messages st @ [userMessageOf now c], page_isTyping := True\<rparr>"
  obtain st2 ac where s2: "deliver steps (st1, []) = (st2, ac)" by (cases "deliver steps (st1, [])")
  have ac: "ac = textOf steps" using deliver_content[of steps st1 "[]"] s2 by simp
  have fr: "page_ttsRequests st2 = page_ttsRequests st"
    using deliver_frame[of steps "(st1, [])"] s2 by (simp add: st1_def)
  have "handleSendMessage v now c steps Done st = onDone v (st2, ac)"
    using s2 by (simp add: handleSendMessage_def Let_def st1_def)
  then show ?thesis
    using ac fr trim_nonempty[of ac] by (auto simp: onDone_def speak_def Let_def)
qed

lemma onDone_voice: "page_isVoiceEnabled (onDone v (st, ac)) = page_isVoiceEnabled st"
  by (simp add: onDone_def speak_def Let_def)

lemma handleSendMessage_done_voice:
  assumes "VoiceToggled \<notin> set steps"
  shows "page_isVoiceEnabled (handleSendMessage v now c steps Done st) = page_isVoiceEnabled st"
proof -
  define st1 where "st1 = st\<lparr>page_messages := page_messages st @ [userMessageOf now c], page_isTyping := True\<rparr>"
  obtain st2 ac where s2: "deliver steps (st1, []) = (st2, ac)" by (cases "deliver steps (st1, [])")
  have "page_isVoiceEnabled st2 = page_isVoiceEnabled st"
    using deliver_voice[OF assms, of "(st1, [])"] s2 by (simp add: st1_def)
  moreover have "handleSendMessage v now c steps Done st = onDone v (st2, ac)"
    using s2 by (simp add: handleSendMessage_def Let_def st1_def)
  ultimately show ?thesis by (simp add: onDone_voice)
qed


section \<open>The claims\<close>










text \<open>
  C4. An insertion of rows into \<^verbatim>\<open>auth.users\<close> that succeeds stores the rows and queues,
  for each row in turn, exactly one request to the signup-notification endpoint whose
  JSON body consists of that row's email and created_at; \<^verbatim>\<open>notify_new_signup\<close> returns
  the new row as it is.
\<close>

theorem signup_trigger_posts_each_row:
  assumes "insertUsers settings rows db = Inr db'"
  shows "db_users db' = db_users db @ rows \<and>
         (\<exists>posts. db_requests db' = db_requests db @ posts \<and>
            map post_body posts = map signupBody rows \<and>
            (\<forall>p \<in> set posts. endsWith (post_url p) ''/functions/v1/signup-notification'')) \<and>
         (\<forall>NEW q r q'. notify_new_signup settings NEW q = Inr (r, q') \<longrightarrow> r = NEW)"
proof -
  from assms obtain q' where
    q': "afterInsert settings [on_auth_user_created_notify] rows (db_requests db) = Inr q'"
        "db' = \<lparr>db_users = db_users db @ rows, db_requests = q'\<rparr>"
    by (auto simp: insertUsers_def split: sum.splits)
  from afterInsert_posts[OF q'(1)] q'(2) notify_result[of settings] show ?thesis by auto
qed

theorem signup_trigger_posts_each_row_witness:
  "insertUsers demoSettings [demoRow] \<lparr>db_users = [], db_requests = []\<rparr> =
     Inr \<lparr>db_users = [demoRow], db_requests = [demoPost]\<rparr> \<and>
   db_users \<lparr>db_users = [demoRow], db_requests = [demoPost]\<rparr> =
     db_users \<lparr>db_users = [], db_requests = []\<rparr> @ [demoRow]"
proof -
  have h: "insertUsers demoSettings [demoRow] \<lparr>db_users = [], db_requests = []\<rparr> =
           Inr \<lparr>db_users = [demoRow], db_requests = [demoPost]\<rparr>" by code_simp
  show ?thesis
    by (rule conjI [OF h conjunct1 [OF signup_trigger_posts_each_row [OF h]]])
qed




text \<open>
  C6, as amended. When the voice button is not pressed while the response streams, then
  after the stream has completed the accumulated assistant text is sent to the
  text-to-speech function if and only if voice is enabled and the text has a character
  that is not whitespace. \<^verbatim>\<open>onDone\<close> calls \<^verbatim>\<open>speak\<close> only when the voice flag that its closure
  holds is set and the text is not empty, and \<^verbatim>\<open>speak\<close> returns without a request whenever
  that flag is not set or the text is whitespace only.
\<close>

theorem voice_speaks_nonblank_reply:
  assumes "VoiceToggled \<notin> set steps"
  shows "page_isVoiceEnabled (sendMessage now c steps Done st) = page_isVoiceEnabled st \<and>
         page_ttsRequests (sendMessage now c steps Done st) =
           (if page_isVoiceEnabled (sendMessage now c steps Done st) \<and> trim (textOf steps) \<noteq> []
            then page_ttsRequests st @ [textOf steps] else page_ttsRequests st) \<and>
         (\<forall>v s ac. \<not> (v \<and> ac \<noteq> []) \<longrightarrow> onDone v (s, ac) = s\<lparr>page_isTyping := False\<rparr>) \<and>
         (\<forall>v t s. \<not> v \<or> trim t = [] \<longrightarrow> speak v t s = s)"
  using handleSendMessage_done_voice[OF assms]
  by (simp add: sendMessage_def handleSendMessage_done_tts onDone_def speak_def Let_def)

theorem voice_speaks_nonblank_reply_witness:
  "page_isVoiceEnabled (sendMessage 5 ''q'' [Chunk 6 ''Hel'', Chunk 7 ''lo''] Done voicePage) \<and>
   page_ttsRequests (sendMessage 5 ''q'' [Chunk 6 ''Hel'', Chunk 7 ''lo''] Done voicePage) =
     [''Hello'']"
proof -
  have h: "VoiceToggled \<notin> set [Chunk 6 ''Hel'', Chunk 7 ''lo'']" by simp
  note t = voice_speaks_nonblank_reply [OF h, of 5 "''q''" voicePage]
  have v: "page_isVoiceEnabled voicePage" by (simp add: voicePage_def)
  have a: "page_isVoiceEnabled (sendMessage 5 ''q'' [Chunk 6 ''Hel'', Chunk 7 ''lo''] Done voicePage)"
    using conjunct1 [OF t] v by simp
  have e: "(if page_isVoiceEnabled (sendMessage 5 ''q'' [Chunk 6 ''Hel'', Chunk 7 ''lo''] Done voicePage) \<and>
               trim (textOf [Chunk 6 ''Hel'', Chunk 7 ''lo'']) \<noteq> []
            then page_ttsRequests voicePage @ [textOf [Chunk 6 ''Hel'', Chunk 7 ''lo'']]
            else page_ttsRequests voicePage) = [''Hello'']"
    using a by (simp add: voicePage_def welcomePage_def trim_def isWhite_def)
  show ?thesis
    by (rule conjI [OF a trans [OF conjunct1 [OF conjunct2 [OF t]] e]])
qed

text \<open>
  C6 as it is stated fails in two ways. With voice enabled, a text of one space is not
  empty and is not sent to the text-to-speech function. And a send with voice enabled,
  during which the voice button is pressed, ends with voice disabled and the text sent:
  \<^verbatim>\<open>onDone\<close> and \<^verbatim>\<open>speak\<close> read the flag that their closures hold from the render before the
  send.
\<close>

theorem voice_blank_reply_counterexample:
  "textOf [Chunk 6 '' ''] \<noteq> [] \<and>
   page_isVoiceEnabled (sendMessage 5 ''q'' [Chunk 6 '' ''] Done voicePage) \<and>
   page_ttsRequests (sendMessage 5 ''q'' [Chunk 6 '' ''] Done voicePage) = [] \<and>
   \<not> page_isVoiceEnabled (sendMessage 5 ''q'' [Chunk 6 ''Hi'', VoiceToggled] Done voicePage) \<and>
   page_ttsRequests (sendMessage 5 ''q'' [Chunk 6 ''Hi'', VoiceToggled] Done voicePage) = [''Hi'']"
  by code_simp

text \<open>
  C7. Every response of the chat, the signup-notification and the cloudinary handler,
  the reply to the preflight, every success and every error, carries the header
  \<^verbatim>\<open>Access-Control-Allow-Origin: *\<close>.
\<close>

theorem cors_on_every_response:
  "allowsAnyOrigin (chatHandler typeError chatReq) \<and>
   allowsAnyOrigin (snd (signupHandler str dateString typeError signupReq)) \<and>
   allowsAnyOrigin (snd (cloudinaryHandler sha1 encode str typeError cloudinaryReq))"
  by (simp add: cors_chat cors_signup cors_cloudinary)

theorem cors_on_every_response_witness:
  "snd (signupHandler demoStr demoDate ''TypeError'' demoSignupRequest) =
     catchResponse (ErrorObject ''TypeError'') \<and>
   allowsAnyOrigin (chatHandler ''TypeError'' demoChatRequest) \<and>
   allowsAnyOrigin (snd (signupHandler demoStr demoDate ''TypeError'' demoSignupRequest)) \<and>
   allowsAnyOrigin (snd (cloudinaryHandler demoSha1 demoEncode demoStr ''TypeError'' demoUpload))"
proof -
  have e: "snd (signupHandler demoStr demoDate ''TypeError'' demoSignupRequest) =
           catchResponse (ErrorObject ''TypeError'')"
    by (simp add: signupHandler_def demoSignupRequest_def configured_def signupHtml_def
          interpolated_def demoStr_def)
  show ?thesis by (rule conjI [OF e cors_on_every_response])
qed



text \<open>
  C9, as amended. Every call of \<^verbatim>\<open>streamChat\<close> in which each awaited promise settles and
  the callbacks return makes its calls of \<^verbatim>\<open>onDelta\<close> first and then exactly one call of a
  terminal callback, \<^verbatim>\<open>onDone\<close> or \<^verbatim>\<open>onError\<close>; nothing follows it.
\<close>

theorem streamChat_one_terminal:
  assumes "settles fetchResult" and "returns cb"
  shows "\<exists>ds t. streamChatWith cb parse m fetchResult = map OnDelta ds @ [t] \<and> terminal t"
proof (cases fetchResult)
  case Pending
  with assms(1) show ?thesis by (simp add: settles_def)
next
  case (Rejected e)
  then have "streamChatWith cb parse m fetchResult = map OnDelta [] @ [OnError (catchMessage e)]"
    by (simp add: streamChatWith_def catchBlock_def)
  moreover have "terminal (OnError (catchMessage e))" by (simp add: terminal_def)
  ultimately show ?thesis by blast
next
  case (Resolved resp)
  show ?thesis
  proof (cases "resp_ok resp")
    case False
    from assms(1) Resolved False have "resp_json resp \<noteq> Pending" by (simp add: settles_def)
    with False Resolved assms(2)
    have "\<exists>v. streamChatWith cb parse m fetchResult = map OnDelta [] @ [OnError v]"
      by (cases "resp_json resp")
         (simp_all add: streamChatWith_def Let_def catchBlock_def callOnError_returns)
    then obtain v where "streamChatWith cb parse m fetchResult = map OnDelta [] @ [OnError v]" ..
    moreover have "terminal (OnError v)" by (simp add: terminal_def)
    ultimately show ?thesis by blast
  next
    case True
    show ?thesis
    proof (cases "resp_body resp")
      case None
      with True Resolved assms(2) have "streamChatWith cb parse m fetchResult =
          map OnDelta [] @ [OnError (JStr ''No response body received'')]"
        by (simp add: streamChatWith_def callOnError_returns)
      moreover have "terminal (OnError (JStr ''No response body received''))"
        by (simp add: terminal_def)
      ultimately show ?thesis by blast
    next
      case (Some body)
      obtain chunks ending where body: "body = (chunks, ending)" by (cases body)
      obtain ds b d where o: "outerLoop parse [] chunks = (ds, b, d)"
        by (cases "outerLoop parse [] chunks") auto
      from assms(1) Resolved True Some body have settled: "ending \<noteq> Pending"
        by (simp add: settles_def)
      have fin: "terminal OnDone" by (simp add: terminal_def)
      show ?thesis
      proof (cases d)
        case True
        with \<open>resp_ok resp\<close> Resolved Some body o assms(2) have
          "streamChatWith cb parse m fetchResult = map OnDelta (ds @ finalFlush parse b) @ [OnDone]"
          by (simp add: streamChatWith_def callOnDone_returns)
        with fin show ?thesis by blast
      next
        case False
        show ?thesis
        proof (cases ending)
          case (Resolved u)
          with False \<open>resp_ok resp\<close> \<open>fetchResult = Resolved resp\<close> Some body o assms(2) have
            "streamChatWith cb parse m fetchResult =
               map OnDelta (ds @ finalFlush parse b) @ [OnDone]"
            by (simp add: streamChatWith_def callOnDone_returns)
          with fin show ?thesis by blast
        next
          case (Rejected e)
          with False \<open>resp_ok resp\<close> \<open>fetchResult = Resolved resp\<close> Some body o have
            "streamChatWith cb parse m fetchResult = map OnDelta ds @ [OnError (catchMessage e)]"
            by (simp add: streamChatWith_def catchBlock_def)
          moreover have "terminal (OnError (catchMessage e))" by (simp add: terminal_def)
          ultimately show ?thesis by blast
        next
          case Pending
          with settled show ?thesis by simp
        qed
      qed
    qed
  qed
qed

theorem streamChat_one_terminal_witness:
  "\<exists>ds t. streamChatWith returning demoParse [] (okStream brokenChunks) = map OnDelta ds @ [t] \<and>
     terminal t"
proof -
  have h1: "settles (okStream brokenChunks)" by (simp add: settles_def okStream_def)
  have h2: "returns returning" by (simp add: returns_def returning_def)
  show ?thesis by (rule streamChat_one_terminal [OF h1 h2])
qed

text \<open>
  C9 as it is stated fails: \<^verbatim>\<open>onDone\<close> is called inside the \<^verbatim>\<open>try\<close> block, so when it throws
  the \<^verbatim>\<open>catch\<close> block calls \<^verbatim>\<open>onError\<close> after it; and a call whose \<^verbatim>\<open>fetch\<close> never settles
  calls no callback at all.
\<close>

theorem streamChat_terminal_counterexample:
  "streamChatWith throwingDone demoParse [] (okStream demoChunks) =
     [OnDelta (JStr ''Hi''), OnDelta (JStr ''!''), OnDone, OnError (JStr ''boom'')] \<and>
   streamChat demoParse [] Pending = []"
  by code_simp




end
